theory Spec2Isabelle
  imports Main
begin

section \<open>The packaging descriptor \<open>setup.py\<close> of \<open>bl\<close>\<close>

text \<open>
  The repository's only source file is \<^verbatim>\<open>setup.py\<close>: three imports followed by one
  call of \<^verbatim>\<open>setuptools.setup\<close> with keyword arguments that are all literals.
  The module is embedded as what it is, a list of top-level statements, together with
  the evaluation of the Python fragment those statements are written in. The result of
  evaluating the module is the list of \<^verbatim>\<open>setup\<close> calls it made, each one the
  association list of its evaluated keyword arguments (the order of the keywords is the
  order of the source).
\<close>

subsection \<open>The text of the file\<close>

text \<open>The nineteen lines of \<^verbatim>\<open>setup.py\<close>, line 1 first. The last line has no newline.\<close>

definition source_lines :: "string list" where
  \<open>source_lines =
    [''import io'',
     ''import re'',
     ''from setuptools import setup'',
     '''',
     '''',
     ''setup('',
     ''    name='bl','',
     ''    version='1.0','',
     ''    include_package_data=True,'',
     ''    license='GPLv3','',
     ''    author='Carlo De Pieri','',
     ''    description='An utility to manage my bluetooth headsets and quickly fix them when they do not connect','',
     ''    scripts=["bl"],'',
     ''    install_requires=['',
     ''        "appdirs>=1.4.4",'',
     ''        "pexpect>=4.8.0"'',
     ''    ],'',
     ''    extras_require={}'',
     '')'']\<close>

subsection \<open>Syntax of the fragment\<close>

text \<open>
  Expressions: string and boolean literals, list and dictionary displays, and names.
  The file uses the first four; a name is the only way an expression of the fragment can
  refer to an imported module or to anything else outside the expression itself.
\<close>

datatype pyexpr =
    Str string
  | Bool bool
  | ListE "pyexpr list"
  | DictE "(pyexpr \<times> pyexpr) list"
  | Name string

text \<open>
  Statements: the two import forms, a call statement with keyword arguments
  (\<^verbatim>\<open>f(k1=e1, ..., kn=en)\<close>), an assignment to a global name, and the compound
  statements of Python, which carry a body.
\<close>

datatype compound_kind =
    FunctionDef | AsyncFunctionDef | ClassDef | ForLoop | WhileLoop | IfStmt | WithStmt | TryStmt

datatype pystmt =
    Import string
  | ImportFrom string "string list"
  | CallStmt string "(string \<times> pyexpr) list"
  | Assign string pyexpr
  | Compound compound_kind "pystmt list"

text \<open>A top-level statement with the first and the last line it occupies in the file.\<close>

record located =
  first_line :: nat
  last_line :: nat
  stmt :: pystmt

subsection \<open>The module\<close>

definition setup_kwargs :: "(string \<times> pyexpr) list" where
  "setup_kwargs =
    [(''name'', Str ''bl''),
     (''version'', Str ''1.0''),
     (''include_package_data'', Bool True),
     (''license'', Str ''GPLv3''),
     (''author'', Str ''Carlo De Pieri''),
     (''description'', Str ''An utility to manage my bluetooth headsets and quickly fix them when they do not connect''),
     (''scripts'', ListE [Str ''bl'']),
     (''install_requires'', ListE [Str ''appdirs>=1.4.4'', Str ''pexpect>=4.8.0'']),
     (''extras_require'', DictE [])]"

definition setup_py :: "located list" where
  "setup_py =
    [\<lparr>first_line = 1, last_line = 1, stmt = Import ''io''\<rparr>,
     \<lparr>first_line = 2, last_line = 2, stmt = Import ''re''\<rparr>,
     \<lparr>first_line = 3, last_line = 3, stmt = ImportFrom ''setuptools'' [''setup'']\<rparr>,
     \<lparr>first_line = 6, last_line = 19, stmt = CallStmt ''setup'' setup_kwargs\<rparr>]"

definition module_body :: "pystmt list" where
  "module_body = map stmt setup_py"

subsection \<open>Evaluation\<close>

text \<open>
  Values. A module object is known by its name, a function imported from a module by the
  module's name and its own.
\<close>

datatype pyval =
    VStr string
  | VBool bool
  | VList "pyval list"
  | VDict "(pyval \<times> pyval) list"
  | VModule string
  | VFunc string string

datatype pyerror =
    NameError string
  | TypeError string
  | SyntaxError string
  | Unsupported string

type_synonym globals = "(string \<times> pyval) list"

text \<open>All results of a list, or the first error, left to right.\<close>

fun sequence :: "('e + 'a) list \<Rightarrow> 'e + 'a list" where
  "sequence [] = Inr []"
| "sequence (Inl e # rs) = Inl e"
| "sequence (Inr v # rs) = (case sequence rs of Inl e \<Rightarrow> Inl e | Inr vs \<Rightarrow> Inr (v # vs))"

fun eval :: "globals \<Rightarrow> pyexpr \<Rightarrow> pyerror + pyval" where
  "eval g (Str s) = Inr (VStr s)"
| "eval g (Bool b) = Inr (VBool b)"
| "eval g (ListE es) =
     (case sequence (map (eval g) es) of Inl e \<Rightarrow> Inl e | Inr vs \<Rightarrow> Inr (VList vs))"
| "eval g (DictE kvs) =
     (case sequence (map (\<lambda>kv. eval g (fst kv)) kvs) of
        Inl e \<Rightarrow> Inl e
      | Inr ks \<Rightarrow>
          (case sequence (map (\<lambda>kv. eval g (snd kv)) kvs) of
             Inl e \<Rightarrow> Inl e
           | Inr vs \<Rightarrow> Inr (VDict (zip ks vs))))"
| "eval g (Name x) =
     (case map_of g x of None \<Rightarrow> Inl (NameError x) | Some v \<Rightarrow> Inr v)"

text \<open>The keyword arguments of a call, evaluated left to right.\<close>

fun eval_kwargs :: "globals \<Rightarrow> (string \<times> pyexpr) list \<Rightarrow> pyerror + (string \<times> pyval) list" where
  "eval_kwargs g [] = Inr []"
| "eval_kwargs g ((k, e) # kes) =
     (case eval g e of
        Inl err \<Rightarrow> Inl err
      | Inr v \<Rightarrow>
          (case eval_kwargs g kes of Inl err \<Rightarrow> Inl err | Inr kvs \<Rightarrow> Inr ((k, v) # kvs)))"

text \<open>
  The state of an evaluation: the global bindings of the module and the calls of
  \<^verbatim>\<open>setuptools.setup\<close> made so far, oldest first.
\<close>

record pystate =
  bindings :: globals
  setup_calls :: "(string \<times> pyval) list list"

text \<open>
  One statement. \<^verbatim>\<open>import m\<close> binds \<open>m\<close> to the module; \<^verbatim>\<open>from m import a, b\<close>
  binds each name to the function of that name in \<open>m\<close>. A call statement refuses a
  repeated keyword (Python refuses it when it compiles the module, the model when it
  reaches the call), looks its callee up (an unbound name is a \<open>NameError\<close>), and,
  when the callee is \<^verbatim>\<open>setuptools.setup\<close>, evaluates the keyword arguments and
  records the call. What any other callee would do, and the compound statements, are
  outside the fragment: they are reported as \<open>Unsupported\<close>.
\<close>

fun exec_stmt :: "pystmt \<Rightarrow> pystate \<Rightarrow> pyerror + pystate" where
  "exec_stmt (Import m) s = Inr (s\<lparr>bindings := (m, VModule m) # bindings s\<rparr>)"
| "exec_stmt (ImportFrom m ns) s =
     Inr (s\<lparr>bindings := rev (map (\<lambda>n. (n, VFunc m n)) ns) @ bindings s\<rparr>)"
| "exec_stmt (CallStmt f kes) s =
     (if \<not> distinct (map fst kes) then Inl (SyntaxError ''keyword argument repeated'')
      else case map_of (bindings s) f of
        None \<Rightarrow> Inl (NameError f)
      | Some (VFunc m n) \<Rightarrow>
          (if m = ''setuptools'' \<and> n = ''setup'' then
             (case eval_kwargs (bindings s) kes of
                Inl err \<Rightarrow> Inl err
              | Inr kvs \<Rightarrow> Inr (s\<lparr>setup_calls := setup_calls s @ [kvs]\<rparr>))
           else Inl (Unsupported (m @ ''.'' @ n)))
      | Some _ \<Rightarrow> Inl (TypeError f))"
| "exec_stmt (Assign x e) s =
     (case eval (bindings s) e of
        Inl err \<Rightarrow> Inl err
      | Inr v \<Rightarrow> Inr (s\<lparr>bindings := (x, v) # bindings s\<rparr>))"
| "exec_stmt (Compound k body) s = Inl (Unsupported ''compound statement'')"

fun exec_block :: "pystmt list \<Rightarrow> pystate \<Rightarrow> pyerror + pystate" where
  "exec_block [] s = Inr s"
| "exec_block (c # cs) s =
     (case exec_stmt c s of Inl err \<Rightarrow> Inl err | Inr s' \<Rightarrow> exec_block cs s')"

text \<open>
  Running a module from the global bindings \<open>g\<close> it starts with: the \<^verbatim>\<open>setup\<close> calls
  it made, or the error that stopped it.
\<close>

definition run_module :: "globals \<Rightarrow> pystmt list \<Rightarrow> pyerror + (string \<times> pyval) list list" where
  "run_module g body =
     (case exec_block body \<lparr>bindings = g, setup_calls = []\<rparr> of
        Inl err \<Rightarrow> Inl err
      | Inr s \<Rightarrow> Inr (setup_calls s))"

text \<open>The metadata the descriptor declares: the keyword arguments of its \<^verbatim>\<open>setup\<close> call.\<close>

definition metadata :: "(string \<times> pyval) list" where
  "metadata =
    [(''name'', VStr ''bl''),
     (''version'', VStr ''1.0''),
     (''include_package_data'', VBool True),
     (''license'', VStr ''GPLv3''),
     (''author'', VStr ''Carlo De Pieri''),
     (''description'', VStr ''An utility to manage my bluetooth headsets and quickly fix them when they do not connect''),
     (''scripts'', VList [VStr ''bl'']),
     (''install_requires'', VList [VStr ''appdirs>=1.4.4'', VStr ''pexpect>=4.8.0'']),
     (''extras_require'', VDict [])]"

subsection \<open>Reading the metadata\<close>

text \<open>A keyword whose value is a list of strings; an absent keyword declares nothing.\<close>

fun str_of :: "pyval \<Rightarrow> string option" where
  "str_of (VStr s) = Some s"
| "str_of _ = None"

fun str_list :: "pyval \<Rightarrow> string list option" where
  "str_list (VList vs) = those (map str_of vs)"
| "str_list _ = None"

definition string_list_field :: "string \<Rightarrow> (string \<times> pyval) list \<Rightarrow> string list option" where
  "string_list_field k md = (case map_of md k of None \<Rightarrow> Some [] | Some v \<Rightarrow> str_list v)"

definition scripts :: "(string \<times> pyval) list \<Rightarrow> string list option" where
  "scripts = string_list_field ''scripts''"

definition install_requires :: "(string \<times> pyval) list \<Rightarrow> string list option" where
  "install_requires = string_list_field ''install_requires''"

text \<open>
  Each path listed under \<^verbatim>\<open>scripts\<close> is installed as an executable under its base
  name, the part after the last slash.
\<close>

definition basename :: "string \<Rightarrow> string" where
  "basename p = rev (takeWhile (\<lambda>c. c \<noteq> CHR ''/'') (rev p))"

definition installed_scripts :: "(string \<times> pyval) list \<Rightarrow> string list option" where
  "installed_scripts md = map_option (map basename) (scripts md)"

text \<open>
  \<^verbatim>\<open>extras_require\<close> maps the name of an extra to the requirements it adds. The
  requirements of an installation that selects the extras \<open>xs\<close> are those of
  \<^verbatim>\<open>install_requires\<close> followed by those of each selected extra; an extra the table
  does not have adds none.
\<close>

fun extra_entry :: "pyval \<times> pyval \<Rightarrow> (string \<times> string list) option" where
  "extra_entry (VStr n, v) = map_option (Pair n) (str_list v)"
| "extra_entry _ = None"

definition extras_require :: "(string \<times> pyval) list \<Rightarrow> (string \<times> string list) list option" where
  "extras_require md =
     (case map_of md ''extras_require'' of
        None \<Rightarrow> Some []
      | Some (VDict kvs) \<Rightarrow> those (map extra_entry kvs)
      | Some _ \<Rightarrow> None)"

definition extra_requirements :: "(string \<times> string list) list \<Rightarrow> string \<Rightarrow> string list" where
  "extra_requirements table x = (case map_of table x of None \<Rightarrow> [] | Some rs \<Rightarrow> rs)"

definition requirements_for :: "(string \<times> pyval) list \<Rightarrow> string list \<Rightarrow> string list option" where
  "requirements_for md xs =
     (case install_requires md of
        None \<Rightarrow> None
      | Some base \<Rightarrow>
          (case extras_require md of
             None \<Rightarrow> None
           | Some table \<Rightarrow> Some (base @ concat (map (extra_requirements table) xs))))"

subsection \<open>Requirement strings\<close>

text \<open>
  A requirement of the form the file uses: a distribution name followed by version
  clauses separated by commas, each an operator and a dotted version number. Spaces,
  extras, markers and URLs are not part of the fragment: such a string does not parse.
\<close>

datatype cmp_op = Ge | Le | Eq | Ne | Compat | Gt | Lt

definition is_name_char :: "char \<Rightarrow> bool" where
  "is_name_char c =
     (c \<in> set ''abcdefghijklmnopqrstuvwxyzABCDEFGHIJKLMNOPQRSTUVWXYZ0123456789._-'')"

fun split_on :: "char \<Rightarrow> string \<Rightarrow> string list" where
  "split_on c [] = [[]]"
| "split_on c (x # xs) =
     (if x = c then [] # split_on c xs
      else (case split_on c xs of [] \<Rightarrow> [[x]] | w # ws \<Rightarrow> (x # w) # ws))"

definition digit_val :: "char \<Rightarrow> nat option" where
  "digit_val c =
     (if c \<in> set ''0123456789'' then Some (of_char c - 48) else None)"

fun digits_val :: "nat \<Rightarrow> string \<Rightarrow> nat option" where
  "digits_val acc [] = Some acc"
| "digits_val acc (c # cs) =
     (case digit_val c of None \<Rightarrow> None | Some d \<Rightarrow> digits_val (10 * acc + d) cs)"

definition parse_nat :: "string \<Rightarrow> nat option" where
  "parse_nat s = (if s = [] then None else digits_val 0 s)"

definition parse_version :: "string \<Rightarrow> nat list option" where
  "parse_version s = those (map parse_nat (split_on CHR ''.'' s))"

definition parse_clause :: "string \<Rightarrow> (cmp_op \<times> nat list) option" where
  "parse_clause s =
     (if take 2 s = ''>='' then map_option (Pair Ge) (parse_version (drop 2 s))
      else if take 2 s = ''<='' then map_option (Pair Le) (parse_version (drop 2 s))
      else if take 2 s = ''=='' then map_option (Pair Eq) (parse_version (drop 2 s))
      else if take 2 s = ''!='' then map_option (Pair Ne) (parse_version (drop 2 s))
      else if take 2 s = ''~='' then map_option (Pair Compat) (parse_version (drop 2 s))
      else if take 1 s = ''>'' then map_option (Pair Gt) (parse_version (drop 1 s))
      else if take 1 s = ''<'' then map_option (Pair Lt) (parse_version (drop 1 s))
      else None)"

definition parse_requirement :: "string \<Rightarrow> (string \<times> (cmp_op \<times> nat list) list) option" where
  "parse_requirement s =
     (let name = takeWhile is_name_char s; rest = dropWhile is_name_char s in
      if name = [] then None
      else if rest = [] then Some (name, [])
      else map_option (Pair name) (those (map parse_clause (split_on CHR '','' rest))))"

text \<open>
  Versions are compared component by component, the shorter one padded with zeros
  (\<open>1.4\<close> and \<open>1.4.0\<close> are the same version).
\<close>

fun ver_le :: "nat list \<Rightarrow> nat list \<Rightarrow> bool" where
  "ver_le [] ys = True"
| "ver_le (x # xs) [] = (x = 0 \<and> ver_le xs [])"
| "ver_le (x # xs) (y # ys) = (x < y \<or> (x = y \<and> ver_le xs ys))"

fun satisfies :: "nat list \<Rightarrow> cmp_op \<times> nat list \<Rightarrow> bool" where
  "satisfies v (Ge, m) = ver_le m v"
| "satisfies v (Le, m) = ver_le v m"
| "satisfies v (Eq, m) = (ver_le m v \<and> ver_le v m)"
| "satisfies v (Ne, m) = (\<not> (ver_le m v \<and> ver_le v m))"
| "satisfies v (Compat, m) = (ver_le m v \<and> ver_le (butlast m) (take (length m - 1) v)
     \<and> ver_le (take (length m - 1) v) (butlast m))"
| "satisfies v (Gt, m) = (\<not> ver_le v m)"
| "satisfies v (Lt, m) = (\<not> ver_le m v)"

text \<open>The versions a requirement string admits; a string that does not parse admits none.\<close>

definition admits :: "string \<Rightarrow> nat list \<Rightarrow> bool" where
  "admits r v =
     (case parse_requirement r of None \<Rightarrow> False | Some (n, cs) \<Rightarrow> list_all (satisfies v) cs)"

text \<open>A requirement that is one lower bound and nothing else: \<^verbatim>\<open>name>=version\<close>.\<close>

definition lower_bound_only :: "string \<Rightarrow> bool" where
  "lower_bound_only r =
     (case parse_requirement r of Some (n, [(Ge, m)]) \<Rightarrow> True | _ \<Rightarrow> False)"

subsection \<open>Shape of the module\<close>

text \<open>The lines of the file that are not blank, and the lines its statements occupy.\<close>

definition nonblank_lines :: "string list \<Rightarrow> nat list" where
  "nonblank_lines ls = map fst (filter (\<lambda>p. snd p \<noteq> []) (zip [1 ..< Suc (length ls)] ls))"

definition covered_lines :: "located list \<Rightarrow> nat list" where
  "covered_lines m = concat (map (\<lambda>l. [first_line l ..< Suc (last_line l)]) m)"

text \<open>How the first line of a simple statement reads; a call opens its argument list there.\<close>

fun join_names :: "string list \<Rightarrow> string" where
  "join_names [] = []"
| "join_names [n] = n"
| "join_names (n # ns) = n @ '', '' @ join_names ns"

fun opening_text :: "pystmt \<Rightarrow> string option" where
  "opening_text (Import m) = Some (''import '' @ m)"
| "opening_text (ImportFrom m ns) = Some (''from '' @ m @ '' import '' @ join_names ns)"
| "opening_text (CallStmt f kes) = Some (f @ ''('')"
| "opening_text _ = None"

definition opens_as_written :: "string list \<Rightarrow> located \<Rightarrow> bool" where
  "opens_as_written ls l =
     (0 < first_line l \<and> first_line l \<le> length ls
      \<and> opening_text (stmt l) = Some (ls ! (first_line l - 1)))"

fun is_import :: "pystmt \<Rightarrow> bool" where
  "is_import (Import m) = True"
| "is_import (ImportFrom m ns) = True"
| "is_import _ = False"

fun is_call :: "pystmt \<Rightarrow> bool" where
  "is_call (CallStmt f kes) = True"
| "is_call _ = False"

fun is_setup_call :: "pystmt \<Rightarrow> bool" where
  "is_setup_call (CallStmt f kes) = (f = ''setup'')"
| "is_setup_call _ = False"

text \<open>
  The compound statements of a statement, at any depth: the definitions of functions,
  coroutines and classes, the loops, the conditionals and the other blocks.
\<close>

fun compound_kinds :: "pystmt \<Rightarrow> compound_kind list" where
  "compound_kinds (Compound k body) = k # concat (map compound_kinds body)"
| "compound_kinds _ = []"

fun is_assignment :: "pystmt \<Rightarrow> bool" where
  "is_assignment (Assign x e) = True"
| "is_assignment _ = False"

fun imported_modules :: "pystmt \<Rightarrow> string list" where
  "imported_modules (Import m) = [m]"
| "imported_modules (ImportFrom m ns) = [m]"
| "imported_modules _ = []"

text \<open>The names an expression or a statement reads.\<close>

fun names_of :: "pyexpr \<Rightarrow> string list" where
  "names_of (Str s) = []"
| "names_of (Bool b) = []"
| "names_of (ListE es) = concat (map names_of es)"
| "names_of (DictE kvs) = concat (map (\<lambda>kv. names_of (fst kv) @ names_of (snd kv)) kvs)"
| "names_of (Name x) = [x]"

fun used_names :: "pystmt \<Rightarrow> string list" where
  "used_names (Import m) = []"
| "used_names (ImportFrom m ns) = []"
| "used_names (CallStmt f kes) = f # concat (map (\<lambda>ke. names_of (snd ke)) kes)"
| "used_names (Assign x e) = names_of e"
| "used_names (Compound k body) = concat (map used_names body)"

text \<open>A module body without its \<^verbatim>\<open>import m\<close> statements for the modules \<open>ms\<close>.\<close>

fun keeps :: "string list \<Rightarrow> pystmt \<Rightarrow> bool" where
  "keeps ms (Import m) = (m \<notin> set ms)"
| "keeps ms _ = True"

definition remove_imports :: "string list \<Rightarrow> pystmt list \<Rightarrow> pystmt list" where
  "remove_imports ms body = filter (keeps ms) body"

text \<open>
  Two states of an evaluation agree outside the names \<open>ms\<close> when they have recorded
  the same calls and bind every other name alike.
\<close>

definition agree :: "string list \<Rightarrow> pystate \<Rightarrow> pystate \<Rightarrow> bool" where
  "agree ms s1 s2 =
     (setup_calls s1 = setup_calls s2
      \<and> (\<forall>x. x \<notin> set ms \<longrightarrow> map_of (bindings s1) x = map_of (bindings s2) x))"

section \<open>Properties\<close>

lemma eval_kwargs_setup: "eval_kwargs g setup_kwargs = Inr metadata"
  by (simp add: setup_kwargs_def metadata_def)

lemma distinct_setup_keywords: "distinct (map fst setup_kwargs)"
  by (simp add: setup_kwargs_def)

lemma run_setup_py: "run_module g module_body = Inr [metadata]"
  by (simp add: run_module_def module_body_def setup_py_def eval_kwargs_setup
      distinct_setup_keywords)

lemma scripts_metadata: "scripts metadata = Some [''bl'']"
  by (simp add: scripts_def string_list_field_def metadata_def)

lemma install_requires_metadata:
  "install_requires metadata = Some [''appdirs>=1.4.4'', ''pexpect>=4.8.0'']"
  by (simp add: install_requires_def string_list_field_def metadata_def)

lemma extras_require_metadata: "extras_require metadata = Some []"
  by (simp add: extras_require_def metadata_def)

lemma parse_appdirs: "parse_requirement ''appdirs>=1.4.4'' = Some (''appdirs'', [(Ge, [1, 4, 4])])"
  by (simp add: parse_requirement_def is_name_char_def parse_clause_def parse_version_def
      parse_nat_def digit_val_def)

lemma parse_pexpect: "parse_requirement ''pexpect>=4.8.0'' = Some (''pexpect'', [(Ge, [4, 8, 0])])"
  by (simp add: parse_requirement_def is_name_char_def parse_clause_def parse_version_def
      parse_nat_def digit_val_def)

subsection \<open>The installed script\<close>

text \<open>
  Claim C1. The \<^verbatim>\<open>scripts\<close> argument of the \<^verbatim>\<open>setup\<close> call is the one-element list
  \<^verbatim>\<open>["bl"]\<close>: whatever bindings the module starts from, it makes exactly one
  \<^verbatim>\<open>setup\<close> call, the \<^verbatim>\<open>scripts\<close> of that call are \<open>bl\<close> and nothing else, the
  one executable installed from them is named \<open>bl\<close>, and the call has no
  \<^verbatim>\<open>entry_points\<close> argument that could declare another.
\<close>

theorem scripts_is_bl:
  "map_of setup_kwargs ''scripts'' = Some (ListE [Str ''bl''])
   \<and> run_module g module_body = Inr [metadata]
   \<and> scripts metadata = Some [''bl'']
   \<and> installed_scripts metadata = Some [''bl'']
   \<and> map_of metadata ''entry_points'' = None"
proof -
  have "map_of setup_kwargs ''scripts'' = Some (ListE [Str ''bl''])"
    by (simp add: setup_kwargs_def)
  moreover have "installed_scripts metadata = Some [''bl'']"
    by (simp add: installed_scripts_def scripts_metadata basename_def)
  moreover have "map_of metadata ''entry_points'' = None"
    by (simp add: metadata_def)
  ultimately show ?thesis
    by (simp add: run_setup_py scripts_metadata)
qed

subsection \<open>The declared dependencies\<close>

text \<open>
  Claim C2. The \<^verbatim>\<open>install_requires\<close> argument has exactly the two entries
  \<^verbatim>\<open>appdirs>=1.4.4\<close> and \<^verbatim>\<open>pexpect>=4.8.0\<close>, in this order: the distributions
  required are \<open>appdirs\<close> and \<open>pexpect\<close> and no other.
\<close>

theorem install_requires_is_appdirs_pexpect:
  "map_of setup_kwargs ''install_requires''
     = Some (ListE [Str ''appdirs>=1.4.4'', Str ''pexpect>=4.8.0''])
   \<and> run_module g module_body = Inr [metadata]
   \<and> install_requires metadata = Some [''appdirs>=1.4.4'', ''pexpect>=4.8.0'']
   \<and> map (map_option fst \<circ> parse_requirement) (the (install_requires metadata))
       = [Some ''appdirs'', Some ''pexpect'']"
proof -
  have "map_of setup_kwargs ''install_requires''
     = Some (ListE [Str ''appdirs>=1.4.4'', Str ''pexpect>=4.8.0''])"
    by (simp add: setup_kwargs_def)
  then show ?thesis
    by (simp add: run_setup_py install_requires_metadata parse_appdirs parse_pexpect)
qed

text \<open>
  Claim C7. The \<^verbatim>\<open>extras_require\<close> argument is the empty dictionary: the table of
  extras is empty, and an installation that selects any extras \<open>xs\<close> requires exactly
  the two entries of \<^verbatim>\<open>install_requires\<close>.
\<close>

theorem extras_require_is_empty:
  "map_of setup_kwargs ''extras_require'' = Some (DictE [])
   \<and> run_module g module_body = Inr [metadata]
   \<and> extras_require metadata = Some []
   \<and> requirements_for metadata xs = Some [''appdirs>=1.4.4'', ''pexpect>=4.8.0'']"
proof -
  have "map_of setup_kwargs ''extras_require'' = Some (DictE [])"
    by (simp add: setup_kwargs_def)
  moreover have "concat (map (extra_requirements []) xs) = []"
    by (induction xs) (simp_all add: extra_requirements_def)
  ultimately show ?thesis
    by (simp add: run_setup_py requirements_for_def install_requires_metadata
        extras_require_metadata)
qed

text \<open>
  Claim C9. Each entry of \<^verbatim>\<open>install_requires\<close> is one lower bound and nothing else,
  \<^verbatim>\<open>appdirs>=1.4.4\<close> and \<^verbatim>\<open>pexpect>=4.8.0\<close>: it parses as a name with the single
  clause \<open>\<ge>\<close>, and the versions it admits are exactly those at or above its minimum,
  so every version at or above the minimum satisfies it.
\<close>

theorem install_requires_lower_bounds:
  "install_requires metadata = Some [''appdirs>=1.4.4'', ''pexpect>=4.8.0'']
   \<and> list_all lower_bound_only (the (install_requires metadata))
   \<and> map parse_requirement (the (install_requires metadata))
       = [Some (''appdirs'', [(Ge, [1, 4, 4])]), Some (''pexpect'', [(Ge, [4, 8, 0])])]
   \<and> admits ''appdirs>=1.4.4'' v = ver_le [1, 4, 4] v
   \<and> admits ''pexpect>=4.8.0'' w = ver_le [4, 8, 0] w"
  by (simp add: install_requires_metadata lower_bound_only_def admits_def
      parse_appdirs parse_pexpect)

subsection \<open>The shape of the module\<close>

lemma nonblank_source_lines:
  "nonblank_lines source_lines = [1, 2, 3, 6, 7, 8, 9, 10, 11, 12, 13, 14, 15, 16, 17, 18, 19]"
  by (simp add: nonblank_lines_def source_lines_def upt_rec)

lemma covered_setup_py:
  "covered_lines setup_py = [1, 2, 3, 6, 7, 8, 9, 10, 11, 12, 13, 14, 15, 16, 17, 18, 19]"
  by (simp add: covered_lines_def setup_py_def upt_rec)

lemma setup_py_opens_as_written: "list_all (opens_as_written source_lines) setup_py"
  by (simp add: opens_as_written_def setup_py_def source_lines_def)

lemma only_call_is_setup: "filter is_call module_body = [CallStmt ''setup'' setup_kwargs]"
  by (simp add: module_body_def setup_py_def)

lemma imported_modules_setup_py:
  "concat (map imported_modules module_body) = [''io'', ''re'', ''setuptools'']"
  by (simp add: module_body_def setup_py_def)

lemma used_names_setup_py: "concat (map used_names module_body) = [''setup'']"
  by (simp add: module_body_def setup_py_def setup_kwargs_def)

text \<open>
  Claim C3. The file is packaging metadata and nothing else. It has 19 lines; the lines
  that are not blank are exactly the lines of its four statements, each of which opens
  as the text of the file does; every statement is an import or the call of
  \<^verbatim>\<open>setup\<close>, and that call is the only call; no statement is a compound statement
  (no function, coroutine or class is defined, and there is no loop, conditional or other
  block) and none is an assignment; the modules imported are \<open>io\<close>, \<open>re\<close> and
  \<open>setuptools\<close>. Evaluating the module, from any bindings, yields the constant
  \<open>metadata\<close>.
\<close>

theorem setup_py_is_pure_metadata:
  "length source_lines = 19
   \<and> covered_lines setup_py = nonblank_lines source_lines
   \<and> list_all (opens_as_written source_lines) setup_py
   \<and> list_all (\<lambda>c. is_import c \<or> is_setup_call c) module_body
   \<and> filter is_call module_body = [CallStmt ''setup'' setup_kwargs]
   \<and> concat (map compound_kinds module_body) = []
   \<and> filter is_assignment module_body = []
   \<and> concat (map imported_modules module_body) = [''io'', ''re'', ''setuptools'']
   \<and> run_module g module_body = Inr [metadata]"
proof -
  have "length source_lines = 19"
    by (simp add: source_lines_def)
  moreover have "covered_lines setup_py = nonblank_lines source_lines"
    by (simp only: nonblank_source_lines covered_setup_py)
  moreover have "list_all (\<lambda>c. is_import c \<or> is_setup_call c) module_body"
    by (simp add: module_body_def setup_py_def)
  moreover have "concat (map compound_kinds module_body) = []"
    by (simp add: module_body_def setup_py_def)
  moreover have "filter is_assignment module_body = []"
    by (simp add: module_body_def setup_py_def)
  ultimately show ?thesis
    using setup_py_opens_as_written only_call_is_setup imported_modules_setup_py
      run_setup_py [of g]
    by blast
qed

text \<open>
  Claim C5. The \<^verbatim>\<open>setup\<close> call has the nine keywords of the file and no other: none
  of \<^verbatim>\<open>entry_points\<close>, \<^verbatim>\<open>options\<close>, \<^verbatim>\<open>package_data\<close> and \<^verbatim>\<open>data_files\<close> is
  among them. Its arguments read no name, so none of them refers to the environment or
  to a module; the only name the module reads is \<open>setup\<close>, the only call it makes is
  the call of \<^verbatim>\<open>setup\<close> (nothing sets an exit code), and the modules it imports are
  \<open>io\<close>, \<open>re\<close> and \<open>setuptools\<close> (none that reads the command line or the
  environment).
\<close>

theorem setup_declares_no_interface:
  "map fst setup_kwargs =
     [''name'', ''version'', ''include_package_data'', ''license'', ''author'',
      ''description'', ''scripts'', ''install_requires'', ''extras_require'']
   \<and> map (map_of setup_kwargs) [''entry_points'', ''options'', ''package_data'', ''data_files'']
       = [None, None, None, None]
   \<and> concat (map (\<lambda>ke. names_of (snd ke)) setup_kwargs) = []
   \<and> concat (map used_names module_body) = [''setup'']
   \<and> filter is_call module_body = [CallStmt ''setup'' setup_kwargs]
   \<and> concat (map imported_modules module_body) = [''io'', ''re'', ''setuptools'']
   \<and> run_module g module_body = Inr [metadata]"
proof -
  have "map fst setup_kwargs =
     [''name'', ''version'', ''include_package_data'', ''license'', ''author'',
      ''description'', ''scripts'', ''install_requires'', ''extras_require'']"
    by (simp add: setup_kwargs_def)
  moreover have "map (map_of setup_kwargs)
      [''entry_points'', ''options'', ''package_data'', ''data_files'']
       = [None, None, None, None]"
    by (simp add: setup_kwargs_def)
  moreover have "concat (map (\<lambda>ke. names_of (snd ke)) setup_kwargs) = []"
    by (simp add: setup_kwargs_def)
  ultimately show ?thesis
    using used_names_setup_py only_call_is_setup imported_modules_setup_py run_setup_py [of g]
    by blast
qed

subsection \<open>Imports that are not used\<close>

text \<open>
  An expression evaluates alike under bindings that agree on the names it reads, and so
  does every statement; an import that is removed binds a name nothing reads.
\<close>

lemma eval_agree:
  "(\<And>x. x \<in> set (names_of e) \<Longrightarrow> map_of g1 x = map_of g2 x) \<Longrightarrow> eval g1 e = eval g2 e"
proof (induction e)
  case (ListE es)
  have "map (eval g1) es = map (eval g2) es"
  proof (rule map_cong [OF refl])
    fix e assume e: "e \<in> set es"
    show "eval g1 e = eval g2 e"
      by (rule ListE.IH [OF e]) (use e ListE.prems in auto)
  qed
  then show ?case by (simp only: eval.simps)
next
  case (DictE kvs)
  have k: "map (\<lambda>kv. eval g1 (fst kv)) kvs = map (\<lambda>kv. eval g2 (fst kv)) kvs"
  proof (rule map_cong [OF refl])
    fix kv assume kv: "kv \<in> set kvs"
    show "eval g1 (fst kv) = eval g2 (fst kv)"
      by (rule DictE.IH(1) [OF kv, of "fst kv"])
        (use kv DictE.prems in \<open>auto simp: fsts.simps\<close>)
  qed
  have v: "map (\<lambda>kv. eval g1 (snd kv)) kvs = map (\<lambda>kv. eval g2 (snd kv)) kvs"
  proof (rule map_cong [OF refl])
    fix kv assume kv: "kv \<in> set kvs"
    show "eval g1 (snd kv) = eval g2 (snd kv)"
      by (rule DictE.IH(2) [OF kv, of "snd kv"])
        (use kv DictE.prems in \<open>auto simp: snds.simps\<close>)
  qed
  show ?case by (simp only: eval.simps k v)
qed simp_all

lemma eval_kwargs_agree:
  "(\<And>x. x \<in> set (concat (map (\<lambda>ke. names_of (snd ke)) kes)) \<Longrightarrow> map_of g1 x = map_of g2 x)
   \<Longrightarrow> eval_kwargs g1 kes = eval_kwargs g2 kes"
proof (induction kes)
  case Nil
  show ?case by simp
next
  case (Cons ke kes)
  obtain k e where ke: "ke = (k, e)" by (cases ke)
  have "eval g1 e = eval g2 e"
    by (rule eval_agree) (use Cons.prems ke in auto)
  moreover have "eval_kwargs g1 kes = eval_kwargs g2 kes"
    by (rule Cons.IH) (use Cons.prems in auto)
  ultimately show ?case by (simp only: ke eval_kwargs.simps)
qed

lemma exec_stmt_agree:
  assumes "agree ms s1 s2" and "set ms \<inter> set (used_names c) = {}"
  shows "rel_sum (=) (agree ms) (exec_stmt c s1) (exec_stmt c s2)"
proof (cases c)
  case (Import m)
  with assms show ?thesis by (simp add: agree_def)
next
  case (ImportFrom m ns)
  with assms show ?thesis
    by (auto simp: agree_def map_add_def split: option.splits)
next
  case (CallStmt f kes)
  from assms CallStmt have f: "map_of (bindings s1) f = map_of (bindings s2) f"
    by (auto simp: agree_def)
  have "eval_kwargs (bindings s1) kes = eval_kwargs (bindings s2) kes"
    by (rule eval_kwargs_agree) (use assms CallStmt in \<open>auto simp: agree_def\<close>)
  with f assms CallStmt show ?thesis
    by (auto simp: agree_def split: option.splits pyval.splits sum.splits)
next
  case (Assign x e)
  have "eval (bindings s1) e = eval (bindings s2) e"
    by (rule eval_agree) (use assms Assign in \<open>auto simp: agree_def\<close>)
  with assms Assign show ?thesis
    by (auto simp: agree_def split: sum.splits)
next
  case (Compound k body)
  then show ?thesis by simp
qed

lemma exec_removed_import:
  assumes "agree ms s1 s2" and "m \<in> set ms"
  shows "\<exists>s2'. exec_stmt (Import m) s2 = Inr s2' \<and> agree ms s1 s2'"
  using assms by (auto simp: agree_def)

lemma exec_block_agree:
  "agree ms s1 s2 \<Longrightarrow> set ms \<inter> set (concat (map used_names body)) = {}
   \<Longrightarrow> rel_sum (=) (agree ms) (exec_block (filter (keeps ms) body) s1) (exec_block body s2)"
proof (induction body arbitrary: s1 s2)
  case Nil
  then show ?case by simp
next
  case (Cons c body)
  from Cons.prems have rest: "set ms \<inter> set (concat (map used_names body)) = {}"
    and here: "set ms \<inter> set (used_names c) = {}" by auto
  show ?case
  proof (cases "keeps ms c")
    case True
    have r: "rel_sum (=) (agree ms) (exec_stmt c s1) (exec_stmt c s2)"
      by (rule exec_stmt_agree [OF Cons.prems(1) here])
    show ?thesis
    proof (cases "exec_stmt c s1")
      case (Inl e)
      with r True show ?thesis by (cases "exec_stmt c s2") auto
    next
      case (Inr s1')
      with r obtain s2' where s2': "exec_stmt c s2 = Inr s2'" "agree ms s1' s2'"
        by (cases "exec_stmt c s2") auto
      from Cons.IH [OF s2'(2) rest] Inr s2' True show ?thesis by simp
    qed
  next
    case False
    then obtain m where m: "c = Import m" "m \<in> set ms"
      by (cases c) auto
    from exec_removed_import [OF Cons.prems(1) m(2)] obtain s2'
      where s2': "exec_stmt (Import m) s2 = Inr s2'" "agree ms s1 s2'" by blast
    from Cons.IH [OF s2'(2) rest] False m s2' show ?thesis by simp
  qed
qed

lemma unused_imports_irrelevant:
  assumes "set ms \<inter> set (concat (map used_names body)) = {}"
  shows "run_module g (remove_imports ms body) = run_module g body"
proof -
  let ?s = "\<lparr>bindings = g, setup_calls = []\<rparr>"
  have "agree ms ?s ?s" by (simp add: agree_def)
  from exec_block_agree [OF this assms]
  have "rel_sum (=) (agree ms) (exec_block (filter (keeps ms) body) ?s) (exec_block body ?s)" .
  then show ?thesis
    by (cases "exec_block (filter (keeps ms) body) ?s"; cases "exec_block body ?s")
      (auto simp: run_module_def remove_imports_def agree_def)
qed

text \<open>The import of \<^verbatim>\<open>setup\<close> is used: without it the call fails.\<close>

lemma setuptools_import_is_needed:
  "run_module [] (filter (\<lambda>c. c \<noteq> ImportFrom ''setuptools'' [''setup'']) module_body)
     = Inl (NameError ''setup'')"
  by (simp add: run_module_def module_body_def setup_py_def distinct_setup_keywords)

text \<open>
  Claim C8. The modules \<open>io\<close> and \<open>re\<close> are imported and never used: the only name
  the module reads is \<open>setup\<close>. So the module without the two imports, which is the
  import of \<^verbatim>\<open>setup\<close> followed by the call, evaluates to what the whole module
  evaluates to; any two evaluations, from whatever bindings \<open>g\<close> and \<open>g'\<close>, give the
  same metadata, with name \<open>bl\<close> and version \<open>1.0\<close>.
\<close>

theorem evaluation_independent_of_io_re:
  "concat (map used_names module_body) = [''setup'']
   \<and> remove_imports [''io'', ''re''] module_body
       = [ImportFrom ''setuptools'' [''setup''], CallStmt ''setup'' setup_kwargs]
   \<and> run_module g (remove_imports [''io'', ''re''] module_body) = run_module g module_body
   \<and> run_module g module_body = run_module g' module_body
   \<and> run_module g module_body = Inr [metadata]
   \<and> map_of metadata ''name'' = Some (VStr ''bl'')
   \<and> map_of metadata ''version'' = Some (VStr ''1.0'')"
proof -
  have unused: "set [''io'', ''re''] \<inter> set (concat (map used_names module_body)) = {}"
    by (simp add: used_names_setup_py)
  have "remove_imports [''io'', ''re''] module_body
       = [ImportFrom ''setuptools'' [''setup''], CallStmt ''setup'' setup_kwargs]"
    by (simp add: remove_imports_def module_body_def setup_py_def)
  moreover have "run_module g (remove_imports [''io'', ''re''] module_body)
       = run_module g module_body"
    by (rule unused_imports_irrelevant [OF unused])
  moreover have "run_module g module_body = run_module g' module_body"
    by (simp only: run_setup_py)
  moreover have "map_of metadata ''name'' = Some (VStr ''bl'')"
    and "map_of metadata ''version'' = Some (VStr ''1.0'')"
    by (simp_all add: metadata_def)
  ultimately show ?thesis
    using used_names_setup_py run_setup_py [of g] by blast
qed

end
